theory Spec2Isabelle
  imports Complex_Main
begin

section \<open>Floating-point values\<close>

text \<open>
  The engine computes with Python floats. They are modelled as exact reals extended by
  the three special values the code itself produces and tests for: \<open>float('inf')\<close>
  (the price sentinel of \<open>calculate_price\<close>), its negative, and not-a-number
  (tested by \<open>math.isnan\<close> in \<open>solve_ytm\<close>). Rounding, overflow of finite
  results (Python's \<open>OverflowError\<close>) and the sign of zero are not modelled. Values
  that enter as data (cash-flow times and amounts, curve parameters, weights, bond terms)
  are finite and have type \<open>real\<close>; values the engine computes have type \<open>fl\<close>.
  Scalars read from a row of the bond table are Python numbers, so a division by zero
  raises; every raise of the source is an \<open>Inl\<close> result of the model.
\<close>

datatype fl = Fin real | PInf | NInf | NaN

datatype error = ZeroDivisionError | ValueError | IndexError | ComplexResult

fun fl_isnan :: "fl \<Rightarrow> bool" where
  "fl_isnan NaN = True"
| "fl_isnan _ = False"

fun fl_neg :: "fl \<Rightarrow> fl" where
  "fl_neg (Fin a) = Fin (- a)"
| "fl_neg PInf = NInf"
| "fl_neg NInf = PInf"
| "fl_neg NaN = NaN"

fun fl_add :: "fl \<Rightarrow> fl \<Rightarrow> fl" where
  "fl_add NaN _ = NaN"
| "fl_add _ NaN = NaN"
| "fl_add (Fin a) (Fin b) = Fin (a + b)"
| "fl_add PInf NInf = NaN"
| "fl_add NInf PInf = NaN"
| "fl_add PInf _ = PInf"
| "fl_add NInf _ = NInf"
| "fl_add (Fin a) PInf = PInf"
| "fl_add (Fin a) NInf = NInf"

definition fl_sub :: "fl \<Rightarrow> fl \<Rightarrow> fl" where
  "fl_sub a b = fl_add a (fl_neg b)"

fun fl_abs :: "fl \<Rightarrow> fl" where
  "fl_abs (Fin a) = Fin \<bar>a\<bar>"
| "fl_abs PInf = PInf"
| "fl_abs NInf = PInf"
| "fl_abs NaN = NaN"

text \<open>Comparisons: every comparison with not-a-number is false.\<close>

fun fl_lt :: "fl \<Rightarrow> fl \<Rightarrow> bool" where
  "fl_lt NaN _ = False"
| "fl_lt _ NaN = False"
| "fl_lt (Fin a) (Fin b) = (a < b)"
| "fl_lt PInf _ = False"
| "fl_lt NInf NInf = False"
| "fl_lt NInf _ = True"
| "fl_lt (Fin a) PInf = True"
| "fl_lt (Fin a) NInf = False"

fun fl_le :: "fl \<Rightarrow> fl \<Rightarrow> bool" where
  "fl_le NaN _ = False"
| "fl_le _ NaN = False"
| "fl_le (Fin a) (Fin b) = (a \<le> b)"
| "fl_le PInf PInf = True"
| "fl_le PInf _ = False"
| "fl_le NInf _ = True"
| "fl_le (Fin a) PInf = True"
| "fl_le (Fin a) NInf = False"

text \<open>
  Python's \<open>min(a, b)\<close> keeps \<open>a\<close> unless \<open>b < a\<close>, and \<open>max(a, b)\<close> keeps
  \<open>a\<close> unless \<open>b > a\<close>; so a not-a-number first argument is kept.
\<close>

definition py_min :: "fl \<Rightarrow> fl \<Rightarrow> fl" where
  "py_min a b = (if fl_lt b a then b else a)"

definition py_max :: "fl \<Rightarrow> fl \<Rightarrow> fl" where
  "py_max a b = (if fl_lt a b then b else a)"

text \<open>
  Python's float division raises \<open>ZeroDivisionError\<close> whenever the divisor is zero,
  whatever the dividend.
\<close>

fun py_div :: "fl \<Rightarrow> fl \<Rightarrow> error + fl" where
  "py_div a (Fin b) =
     (if b = 0 then Inl ZeroDivisionError
      else Inr (case a of
                  Fin x \<Rightarrow> Fin (x / b)
                | PInf \<Rightarrow> (if 0 < b then PInf else NInf)
                | NInf \<Rightarrow> (if 0 < b then NInf else PInf)
                | NaN \<Rightarrow> NaN))"
| "py_div a NaN = Inr NaN"
| "py_div (Fin x) PInf = Inr (Fin 0)"
| "py_div (Fin x) NInf = Inr (Fin 0)"
| "py_div a PInf = Inr NaN"
| "py_div a NInf = Inr NaN"

text \<open>
  Python's \<open>x ** e\<close> for a float \<open>x\<close> and a finite exponent \<open>e\<close>: exponent zero gives
  one for every base; a zero base with a negative exponent raises; a negative base with
  a non-integral exponent leaves the floats (Python answers with a complex number),
  which the model reports as \<open>ComplexResult\<close>.
\<close>

definition py_pow :: "fl \<Rightarrow> real \<Rightarrow> error + fl" where
  "py_pow x e =
     (if e = 0 then Inr (Fin 1)
      else case x of
        NaN \<Rightarrow> Inr NaN
      | PInf \<Rightarrow> Inr (if 0 < e then PInf else Fin 0)
      | NInf \<Rightarrow> Inr (if 0 < e
                       then (if of_int \<lfloor>e\<rfloor> = e \<and> odd \<lfloor>e\<rfloor> then NInf else PInf)
                       else Fin 0)
      | Fin b \<Rightarrow>
          (if 0 < b then Inr (Fin (b powr e))
           else if b = 0 then (if e < 0 then Inl ZeroDivisionError else Inr (Fin 0))
           else if of_int \<lfloor>e\<rfloor> = e then Inr (Fin (b powi \<lfloor>e\<rfloor>))
           else Inl ComplexResult))"

text \<open>Float multiplication; zero times an infinity is not a number.\<close>

fun fl_mul :: "fl \<Rightarrow> fl \<Rightarrow> fl" where
  "fl_mul NaN _ = NaN"
| "fl_mul _ NaN = NaN"
| "fl_mul (Fin a) (Fin b) = Fin (a * b)"
| "fl_mul PInf (Fin b) = (if b = 0 then NaN else if 0 < b then PInf else NInf)"
| "fl_mul NInf (Fin b) = (if b = 0 then NaN else if 0 < b then NInf else PInf)"
| "fl_mul (Fin a) PInf = (if a = 0 then NaN else if 0 < a then PInf else NInf)"
| "fl_mul (Fin a) NInf = (if a = 0 then NaN else if 0 < a then NInf else PInf)"
| "fl_mul PInf PInf = PInf"
| "fl_mul PInf NInf = NInf"
| "fl_mul NInf PInf = NInf"
| "fl_mul NInf NInf = PInf"

text \<open>Python's \<open>round\<close> of a float to an integer: halves go to the even neighbour.\<close>

definition py_round :: "real \<Rightarrow> int" where
  "py_round x =
     (let f = \<lfloor>x\<rfloor>; d = x - of_int f
      in if d < 1 / 2 then f else if 1 / 2 < d then f + 1 else if even f then f else f + 1)"

section \<open>Bond analytics (pricing\_utils.py)\<close>

record cash_flow =
  time :: real
  amount :: real

text \<open>
  \<open>calculate_price\<close>: the sentinel for yields at or below \<open>-100%\<close>, then the loop over
  the cash flows, \<open>price += amount / (1 + ytm / frequency) ** (frequency * time)\<close>,
  started at \<open>0.0\<close>. The frequency is the bond's number of payments per year, a
  non-negative integer; dividing by a zero frequency raises.
\<close>

definition discount_term :: "fl \<Rightarrow> nat \<Rightarrow> cash_flow \<Rightarrow> error + fl" where
  "discount_term ytm frequency cf =
     (case py_div ytm (Fin (real frequency)) of
        Inl e \<Rightarrow> Inl e
      | Inr q \<Rightarrow>
          (case py_pow (fl_add (Fin 1) q) (real frequency * time cf) of
             Inl e \<Rightarrow> Inl e
           | Inr d \<Rightarrow> py_div (Fin (amount cf)) d))"

fun price_loop :: "fl \<Rightarrow> nat \<Rightarrow> fl \<Rightarrow> cash_flow list \<Rightarrow> error + fl" where
  "price_loop ytm frequency price [] = Inr price"
| "price_loop ytm frequency price (cf # cfs) =
     (case discount_term ytm frequency cf of
        Inl e \<Rightarrow> Inl e
      | Inr t \<Rightarrow> price_loop ytm frequency (fl_add price t) cfs)"

definition calculate_price :: "fl \<Rightarrow> cash_flow list \<Rightarrow> nat \<Rightarrow> error + fl" where
  "calculate_price yield_to_maturity cash_flows frequency =
     (if fl_le yield_to_maturity (Fin (- 1)) then Inr PInf
      else price_loop yield_to_maturity frequency (Fin 0) cash_flows)"

text \<open>
  The value the loop computes when the yield is finite and above \<open>-100%\<close> and the
  frequency is positive: the sum of the discounted payments.
\<close>

definition present_value :: "real \<Rightarrow> cash_flow list \<Rightarrow> nat \<Rightarrow> real" where
  "present_value y cfs f =
     (\<Sum>cf\<leftarrow>cfs. amount cf / (1 + y / real f) powr (real f * time cf))"

text \<open>
  \<open>solve_ytm\<close>: the local variables \<open>low\<close>, \<open>high\<close> and \<open>ytm\<close> are the
  solver's state; one pass through the loop body either returns or ends with the
  clamped new \<open>ytm\<close>.
\<close>

record solver_state =
  s_low :: fl
  s_high :: fl
  s_ytm :: fl

datatype outcome = Return fl | Continue solver_state

definition eps :: real where
  "eps = 1 / 10 ^ 7"

text \<open>The price at \<open>ytm\<close> and the forward-difference derivative \<open>(price_eps - price) / eps\<close>.\<close>

definition forward_difference :: "cash_flow list \<Rightarrow> nat \<Rightarrow> fl \<Rightarrow> error + (fl \<times> fl)" where
  "forward_difference cash_flows frequency y =
     (case calculate_price y cash_flows frequency of
        Inl e \<Rightarrow> Inl e
      | Inr price \<Rightarrow>
          (case calculate_price (fl_add y (Fin eps)) cash_flows frequency of
             Inl e \<Rightarrow> Inl e
           | Inr price_eps \<Rightarrow>
               (case py_div (fl_sub price_eps price) (Fin eps) of
                  Inl e \<Rightarrow> Inl e
                | Inr derivative \<Rightarrow> Inr (price, derivative))))"

text \<open>The test \<open>abs(derivative) < 1e-12 or math.isnan(derivative)\<close>.\<close>

definition degenerate :: "fl \<Rightarrow> bool" where
  "degenerate derivative \<longleftrightarrow> fl_lt (fl_abs derivative) (Fin (1 / 10 ^ 12)) \<or> fl_isnan derivative"

text \<open>\<open>max(min(ytm, high), low)\<close>.\<close>

definition clamp :: "solver_state \<Rightarrow> fl \<Rightarrow> fl" where
  "clamp s y = py_max (py_min y (s_high s)) (s_low s)"

definition solve_iteration ::
  "fl \<Rightarrow> cash_flow list \<Rightarrow> nat \<Rightarrow> solver_state \<Rightarrow> error + outcome" where
  "solve_iteration target_price cash_flows frequency s =
     (case forward_difference cash_flows frequency (s_ytm s) of
        Inl e \<Rightarrow> Inl e
      | Inr (price, derivative) \<Rightarrow>
          if degenerate derivative then
            (case py_div (fl_add (s_low s) (s_high s)) (Fin 2) of
               Inl e \<Rightarrow> Inl e
             | Inr mid \<Rightarrow> Inr (Continue (s\<lparr>s_ytm := clamp s mid\<rparr>)))
          else
            (let diff = fl_sub target_price price in
             if fl_lt (fl_abs diff) (Fin (1 / 10 ^ 8)) then Inr (Return (s_ytm s))
             else
               (case py_div diff derivative of
                  Inl e \<Rightarrow> Inl e
                | Inr step \<Rightarrow>
                    Inr (Continue (s\<lparr>s_ytm := clamp s (fl_add (s_ytm s) step)\<rparr>)))))"

text \<open>\<open>for i in range(100)\<close>, with the \<open>return ytm\<close> after the loop.\<close>

fun solve_loop ::
  "nat \<Rightarrow> fl \<Rightarrow> cash_flow list \<Rightarrow> nat \<Rightarrow> solver_state \<Rightarrow> error + fl" where
  "solve_loop 0 target_price cash_flows frequency s = Inr (s_ytm s)"
| "solve_loop (Suc n) target_price cash_flows frequency s =
     (case solve_iteration target_price cash_flows frequency s of
        Inl e \<Rightarrow> Inl e
      | Inr (Return r) \<Rightarrow> Inr r
      | Inr (Continue s') \<Rightarrow> solve_loop n target_price cash_flows frequency s')"

definition initial_state :: "fl \<Rightarrow> solver_state" where
  "initial_state guess = \<lparr>s_low = Fin (- 0.20), s_high = Fin 1.0, s_ytm = guess\<rparr>"

definition solve_ytm :: "fl \<Rightarrow> cash_flow list \<Rightarrow> nat \<Rightarrow> fl \<Rightarrow> error + fl" where
  "solve_ytm target_price cash_flows frequency guess =
     solve_loop 100 target_price cash_flows frequency (initial_state guess)"

text \<open>
  The states in which the loop body is entered during a run of at most \<open>n\<close> passes,
  followed by the state in which the loop is left when it runs out.
\<close>

fun solve_trace ::
  "nat \<Rightarrow> fl \<Rightarrow> cash_flow list \<Rightarrow> nat \<Rightarrow> solver_state \<Rightarrow> solver_state list" where
  "solve_trace 0 target_price cash_flows frequency s = [s]"
| "solve_trace (Suc n) target_price cash_flows frequency s =
     s # (case solve_iteration target_price cash_flows frequency s of
            Inr (Continue s') \<Rightarrow> solve_trace n target_price cash_flows frequency s'
          | _ \<Rightarrow> [])"

text \<open>
  \<open>generate_cash_flows\<close>: the period count, then the coupon payment (whose division
  by the frequency raises for a zero frequency), then one payment per period, the last
  one with the principal added.
\<close>

definition generate_cash_flows :: "real \<Rightarrow> real \<Rightarrow> nat \<Rightarrow> real \<Rightarrow> error + cash_flow list" where
  "generate_cash_flows principal' coupon_rate frequency years_to_maturity =
     (let total_periods = py_round (years_to_maturity * real frequency)
      in if frequency = 0 then Inl ZeroDivisionError
         else
           (let coupon_payment = (coupon_rate / real frequency) * principal'
            in Inr (map (\<lambda>period.
                         \<lparr>time = real period / real frequency,
                          amount = (if int period = total_periods
                                    then coupon_payment + principal' else coupon_payment)\<rparr>)
                       [1..<nat (total_periods + 1)])))"








text \<open>The bound interval of the solver, as a predicate on float values.\<close>

definition in_bounds :: "fl \<Rightarrow> bool" where
  "in_bounds y \<longleftrightarrow> (\<exists>r. y = Fin r \<and> - 0.20 \<le> r \<and> r \<le> 1.0)"

text \<open>The one-payment schedule used in the concrete evaluations below.\<close>

definition one_payment :: "cash_flow list" where
  "one_payment = [\<lparr>time = 1, amount = 100\<rparr>]"

section \<open>Yield curve and scenario generator (yield\_curve.py)\<close>

record yield_curve =
  beta0 :: real
  beta1 :: real
  beta2 :: real
  tau :: real

text \<open>
  \<open>get_yield\<close>: the short-end value for a maturity at or below zero, the Nelson-Siegel
  formula otherwise. \<open>maturity / tau\<close> raises for a zero \<open>tau\<close>.
\<close>

definition get_yield :: "yield_curve \<Rightarrow> real \<Rightarrow> error + real" where
  "get_yield curve maturity =
     (if maturity \<le> 0 then Inr (beta0 curve + beta1 curve)
      else if tau curve = 0 then Inl ZeroDivisionError
      else
        (let t_tau = maturity / tau curve;
             exp_term = exp (- t_tau);
             term1 = (1 - exp_term) / t_tau;
             term2 = term1 - exp_term
         in Inr (beta0 curve + beta1 curve * term1 + beta2 curve * term2)))"

text \<open>
  \<open>generate_scenarios\<close>. The generator is reseeded with 42 at every call, so the
  standard normal variates behind \<open>np.random.normal(0, volatility, (n, 3))\<close> are a fixed
  table, taken as the parameter \<open>draws\<close> (row, column); numpy forms each sample as
  \<open>loc + scale * variate\<close> and refuses a negative scale. The number of scenarios is a count.
\<close>

definition shock :: "(nat \<Rightarrow> nat \<Rightarrow> real) \<Rightarrow> real \<Rightarrow> nat \<Rightarrow> nat \<Rightarrow> real" where
  "shock draws volatility i j = 0 + volatility * draws i j"

definition scenario_curve :: "(nat \<Rightarrow> nat \<Rightarrow> real) \<Rightarrow> yield_curve \<Rightarrow> real \<Rightarrow> nat \<Rightarrow> yield_curve" where
  "scenario_curve draws base_curve volatility i =
     (let s_beta0 = beta0 base_curve + shock draws volatility i 0;
          s_beta1 = beta1 base_curve + shock draws volatility i 1;
          s_beta2 = beta2 base_curve + shock draws volatility i 2;
          s_beta0 = max 0.001 s_beta0
      in \<lparr>beta0 = s_beta0, beta1 = s_beta1, beta2 = s_beta2, tau = tau base_curve\<rparr>)"

definition generate_scenarios ::
  "(nat \<Rightarrow> nat \<Rightarrow> real) \<Rightarrow> yield_curve \<Rightarrow> nat \<Rightarrow> real \<Rightarrow> error + yield_curve list" where
  "generate_scenarios draws base_curve n_scenarios volatility =
     (if volatility < 0 then Inl ValueError
      else Inr (map (scenario_curve draws base_curve volatility) [0..<n_scenarios]))"

text \<open>\<open>apply_manual_shock\<close>: the \<open>if\<close>/\<open>elif\<close> chain on the shock type, a string.\<close>

definition apply_manual_shock :: "yield_curve \<Rightarrow> string \<Rightarrow> real \<Rightarrow> yield_curve" where
  "apply_manual_shock base_curve type magnitude =
     (if type = ''parallel'' then
        \<lparr>beta0 = beta0 base_curve + magnitude, beta1 = beta1 base_curve,
         beta2 = beta2 base_curve, tau = tau base_curve\<rparr>
      else if type = ''steepener'' then
        \<lparr>beta0 = beta0 base_curve + magnitude, beta1 = beta1 base_curve - magnitude,
         beta2 = beta2 base_curve, tau = tau base_curve\<rparr>
      else if type = ''flattener'' then
        \<lparr>beta0 = beta0 base_curve - magnitude, beta1 = beta1 base_curve + magnitude,
         beta2 = beta2 base_curve, tau = tau base_curve\<rparr>
      else base_curve)"

text \<open>A table of variates and two base curves for the concrete evaluations below.\<close>

definition unit_draws :: "nat \<Rightarrow> nat \<Rightarrow> real" where
  "unit_draws i j = 1"

definition zero_level_curve :: yield_curve where
  "zero_level_curve = \<lparr>beta0 = 0, beta1 = 0.02, beta2 = 0.01, tau = 2\<rparr>"

definition sample_curve :: yield_curve where
  "sample_curve = \<lparr>beta0 = 0.04, beta1 = - 0.02, beta2 = 0.01, tau = 2\<rparr>"

section \<open>Portfolio constraints (constraints.py)\<close>

text \<open>A row of the bond universe and a row of the characteristics table.\<close>

record bond =
  b_id :: string
  b_principal :: real
  b_coupon :: real
  b_frequency :: nat
  b_maturity :: real
  b_market_price :: fl
















section \<open>Risk engine (risk\_engine.py)\<close>




section \<open>Cash-flow cache and CVaR objective (risk\_engine.py, optimizer.py)\<close>

text \<open>
  \<open>_get_cached_cfs\<close>: the cache is a dictionary from bond identifier to schedule; a
  missing identifier is filled with the generated schedule. The cache is state, so the
  function returns it with the schedule.
\<close>

type_synonym cf_cache = "string \<rightharpoonup> cash_flow list"

definition get_cached_cfs ::
  "cf_cache \<Rightarrow> string \<Rightarrow> real \<Rightarrow> real \<Rightarrow> nat \<Rightarrow> real \<Rightarrow> error + (cash_flow list \<times> cf_cache)" where
  "get_cached_cfs cache bond_id principal' coupon freq maturity =
     (case cache bond_id of
        Some cfs \<Rightarrow> Inr (cfs, cache)
      | None \<Rightarrow>
          (case generate_cash_flows principal' coupon freq maturity of
             Inl e \<Rightarrow> Inl e
           | Inr cfs \<Rightarrow> Inr (cfs, cache(bond_id \<mapsto> cfs))))"

definition bond_cfs :: "cf_cache \<Rightarrow> bond \<Rightarrow> error + (cash_flow list \<times> cf_cache)" where
  "bond_cfs cache b =
     get_cached_cfs cache (b_id b) (b_principal b) (b_coupon b) (b_frequency b) (b_maturity b)"

text \<open>
  The unit loss of one bond in one scenario, with the guard on a market price at or
  below zero.
\<close>

definition unit_loss_ratio :: "fl \<Rightarrow> fl \<Rightarrow> error + fl" where
  "unit_loss_ratio market_price scenario_price =
     (let initial_market_price =
            (if fl_le market_price (Fin 0) then Fin 0.01 else market_price)
      in py_div (fl_sub initial_market_price scenario_price) initial_market_price)"

text \<open>
  The inner loop over the bonds of \<open>_cvar_objective\<close>, with the running
  \<open>portfolio_loss_sum\<close>; \<open>weights[bond_index]\<close> is the head of the remaining weights.
\<close>

fun portfolio_loss ::
  "yield_curve \<Rightarrow> real list \<Rightarrow> bond list \<Rightarrow> fl \<Rightarrow> cf_cache \<Rightarrow> error + (fl \<times> cf_cache)" where
  "portfolio_loss curve ws [] portfolio_loss_sum cache = Inr (portfolio_loss_sum, cache)"
| "portfolio_loss curve ws (b # bs) portfolio_loss_sum cache =
     (case bond_cfs cache b of
        Inl e \<Rightarrow> Inl e
      | Inr (cash_flow_schedule, cache') \<Rightarrow>
     (case get_yield curve (b_maturity b) of
        Inl e \<Rightarrow> Inl e
      | Inr scenario_yield \<Rightarrow>
     (case calculate_price (Fin scenario_yield) cash_flow_schedule (b_frequency b) of
        Inl e \<Rightarrow> Inl e
      | Inr scenario_price \<Rightarrow>
     (case unit_loss_ratio (b_market_price b) scenario_price of
        Inl e \<Rightarrow> Inl e
      | Inr ratio \<Rightarrow>
     (case ws of
        [] \<Rightarrow> Inl IndexError
      | w # ws' \<Rightarrow>
          portfolio_loss curve ws' bs (fl_add portfolio_loss_sum (fl_mul (Fin w) ratio)) cache')))))"

text \<open>The outer loop over the scenarios.\<close>

fun scenario_losses ::
  "yield_curve list \<Rightarrow> real list \<Rightarrow> bond list \<Rightarrow> cf_cache \<Rightarrow> error + (fl list \<times> cf_cache)" where
  "scenario_losses [] ws bonds cache = Inr ([], cache)"
| "scenario_losses (curve # curves) ws bonds cache =
     (case portfolio_loss curve ws bonds (Fin 0) cache of
        Inl e \<Rightarrow> Inl e
      | Inr (l, cache') \<Rightarrow>
          (case scenario_losses curves ws bonds cache' of
             Inl e \<Rightarrow> Inl e
           | Inr (ls, cache'') \<Rightarrow> Inr (l # ls, cache'')))"

text \<open>\<open>np.maximum\<close> keeps a not-a-number operand.\<close>

definition np_maximum :: "fl \<Rightarrow> fl \<Rightarrow> fl" where
  "np_maximum a b = (if fl_isnan a then a else if fl_isnan b then b else if fl_lt a b then b else a)"

text \<open>
  \<open>_cvar_objective\<close>: the split of the decision vector (indexing past its end
  raises), the scenario losses, and the Rockafellar-Uryasev expression, whose
  \<open>1.0 / cvar_denominator\<close> raises for a zero denominator.
\<close>

definition cvar_objective ::
  "real list \<Rightarrow> bond list \<Rightarrow> yield_curve list \<Rightarrow> real \<Rightarrow> cf_cache \<Rightarrow> error + (fl \<times> cf_cache)" where
  "cvar_objective weights_plus_alpha bond_data scenarios confidence_level cache =
     (let number_of_bonds = length bond_data;
          weights = take number_of_bonds weights_plus_alpha
      in if length weights_plus_alpha \<le> number_of_bonds then Inl IndexError
         else
           (let alpha_var_proxy = weights_plus_alpha ! number_of_bonds
            in case scenario_losses scenarios weights bond_data cache of
                 Inl e \<Rightarrow> Inl e
               | Inr (losses, cache') \<Rightarrow>
                   (let tail_deviation =
                          map (\<lambda>l. np_maximum (fl_sub l (Fin alpha_var_proxy)) (Fin 0)) losses;
                        cvar_denominator = real (length scenarios) * (1 - confidence_level)
                    in if cvar_denominator = 0 then Inl ZeroDivisionError
                       else Inr (fl_add (Fin alpha_var_proxy)
                                   (fl_mul (Fin (1.0 / cvar_denominator))
                                      (foldl fl_add (Fin 0) tail_deviation)),
                                 cache'))))"

subsection \<open>The objective in closed form\<close>

text \<open>
  The Rockafellar-Uryasev value of a list of scenario losses, as the specification
  writes it.
\<close>

definition rockafellar_uryasev :: "real \<Rightarrow> real \<Rightarrow> real list \<Rightarrow> real" where
  "rockafellar_uryasev alpha c losses =
     alpha + (1 / (real (length losses) * (1 - c))) * (\<Sum>l\<leftarrow>losses. max 0 (l - alpha))"

text \<open>
  The unit loss ratio in the specification's words,
  \<open>(initial_price - scenario_price) / max(initial_price, 0.01)\<close>, and the ratio with the
  floor applied as the source applies it: a price at or below zero is replaced by
  \<open>0.01\<close> in numerator and denominator, any other price is kept.
\<close>

definition unit_loss_spec :: "real \<Rightarrow> real \<Rightarrow> real" where
  "unit_loss_spec initial_price scenario_price =
     (initial_price - scenario_price) / max initial_price 0.01"

definition unit_loss_floored :: "real \<Rightarrow> real \<Rightarrow> real" where
  "unit_loss_floored initial_price scenario_price =
     (let p = (if initial_price \<le> 0 then 0.01 else initial_price)
      in (p - scenario_price) / p)"

text \<open>
  The cache once every bond of the universe has been looked up, the finite value of a
  market price and of a curve's yield, and the scenario price of a bond: its cached
  schedule discounted at the scenario curve's yield for its maturity.
\<close>

fun fill_cache :: "cf_cache \<Rightarrow> bond list \<Rightarrow> cf_cache" where
  "fill_cache cache [] = cache"
| "fill_cache cache (b # bs) =
     (case bond_cfs cache b of
        Inl e \<Rightarrow> cache
      | Inr (cfs, cache') \<Rightarrow> fill_cache cache' bs)"

definition fin_price :: "bond \<Rightarrow> real" where
  "fin_price b = (case b_market_price b of Fin p \<Rightarrow> p | _ \<Rightarrow> 0)"

definition the_yield :: "yield_curve \<Rightarrow> real \<Rightarrow> real" where
  "the_yield curve maturity = (case get_yield curve maturity of Inr y \<Rightarrow> y | Inl e \<Rightarrow> 0)"

definition scenario_price :: "cf_cache \<Rightarrow> yield_curve \<Rightarrow> bond \<Rightarrow> real" where
  "scenario_price cache curve b =
     present_value (the_yield curve (b_maturity b))
       (case cache (b_id b) of Some cfs \<Rightarrow> cfs | None \<Rightarrow> []) (b_frequency b)"

definition weighted_loss ::
  "(real \<Rightarrow> real \<Rightarrow> real) \<Rightarrow> cf_cache \<Rightarrow> real list \<Rightarrow> bond list \<Rightarrow> yield_curve \<Rightarrow> real" where
  "weighted_loss unit_loss cache ws bonds curve =
     (\<Sum>(w, b)\<leftarrow>zip ws bonds. w * unit_loss (fin_price b) (scenario_price cache curve b))"

text \<open>
  The inputs on which the objective stays inside the finite numbers: every bond has a
  positive frequency and a finite market price, every scenario curve has a non-zero
  \<open>tau\<close>, and every scenario yield is above \<open>-100%\<close>.
\<close>

definition regular_inputs :: "bond list \<Rightarrow> yield_curve list \<Rightarrow> bool" where
  "regular_inputs bonds scenarios \<longleftrightarrow>
     list_all (\<lambda>b. 0 < b_frequency b \<and> b_market_price b = Fin (fin_price b)) bonds
     \<and> list_all (\<lambda>curve. tau curve \<noteq> 0
                   \<and> list_all (\<lambda>b. - 1 < the_yield curve (b_maturity b)) bonds) scenarios"

text \<open>A matured, worthless bond for the concrete evaluation below.\<close>

definition matured_bond :: bond where
  "matured_bond =
     \<lparr>b_id = ''MATURED'', b_principal = 1000, b_coupon = 0.05, b_frequency = 2,
      b_maturity = 0, b_market_price = Fin 0\<rparr>"

text \<open>A one-payment bond priced at par and a flat curve at 25%.\<close>

definition live_bond :: bond where
  "live_bond =
     \<lparr>b_id = ''LIVE'', b_principal = 100, b_coupon = 0, b_frequency = 1,
      b_maturity = 1, b_market_price = Fin 100\<rparr>"

definition flat_curve :: yield_curve where
  "flat_curve = \<lparr>beta0 = 0.25, beta1 = 0, beta2 = 0, tau = 2\<rparr>"

section \<open>Optimizer entry point and simulator (optimizer.py, simulator.py)\<close>

















section \<open>Properties of pricing\<close>

lemma discount_base_pos:
  assumes "- 1 < y" "0 < f"
  shows "0 < 1 + y / real f"
proof -
  have f1: "1 \<le> real f" using assms(2) by simp
  then have "0 < real f + y" using assms(1) by linarith
  then have "0 < (real f + y) / real f" using f1 by simp
  moreover have "(real f + y) / real f = 1 + y / real f"
    using f1 by (simp add: add_divide_distrib)
  ultimately show ?thesis by simp
qed

lemma discount_term_fin:
  assumes "- 1 < y" "0 < f"
  shows "discount_term (Fin y) f cf
           = Inr (Fin (amount cf / (1 + y / real f) powr (real f * time cf)))"
proof -
  have b: "0 < 1 + y / real f" using assms by (rule discount_base_pos)
  have nz: "real f \<noteq> 0" using assms(2) by simp
  show ?thesis
  proof (cases "real f * time cf = 0")
    case True
    then show ?thesis using b nz by (simp add: discount_term_def py_pow_def)
  next
    case False
    have "(1 + y / real f) powr (real f * time cf) \<noteq> 0" using b by simp
    then show ?thesis using b nz False by (simp add: discount_term_def py_pow_def)
  qed
qed

lemma price_loop_fin:
  assumes "- 1 < y" "0 < f"
  shows "price_loop (Fin y) f (Fin p) cfs = Inr (Fin (p + present_value y cfs f))"
  using assms
  by (induction cfs arbitrary: p)
     (simp_all add: present_value_def discount_term_fin add.assoc)

lemma calculate_price_fin:
  assumes "- 1 < y" "0 < f"
  shows "calculate_price (Fin y) cfs f = Inr (Fin (present_value y cfs f))"
  using assms price_loop_fin [of y f 0 cfs] by (simp add: calculate_price_def)

lemma calculate_price_sentinel:
  "y \<le> - 1 \<Longrightarrow> calculate_price (Fin y) cfs f = Inr PInf"
  by (simp add: calculate_price_def)

lemma discounted_strict_mono:
  assumes "- 1 < y1" "y1 < y2" "0 < f" "0 < a" "0 < t"
  shows "a / (1 + y2 / real f) powr (real f * t) < a / (1 + y1 / real f) powr (real f * t)"
proof -
  have b1: "0 < 1 + y1 / real f" using assms by (intro discount_base_pos) auto
  have lt: "1 + y1 / real f < 1 + y2 / real f"
    using assms by (simp add: divide_strict_right_mono)
  have e: "0 < real f * t" using assms by simp
  have "(1 + y1 / real f) powr (real f * t) < (1 + y2 / real f) powr (real f * t)"
    using e b1 lt by (intro powr_less_mono2) auto
  moreover have "0 < (1 + y1 / real f) powr (real f * t)" using b1 by simp
  ultimately show ?thesis using assms(4) by (simp add: frac_less2)
qed

lemma present_value_strict_mono:
  assumes "- 1 < y1" "y1 < y2" "0 < f" "cfs \<noteq> []"
    and "\<forall>cf \<in> set cfs. 0 < amount cf \<and> 0 < time cf"
  shows "present_value y2 cfs f < present_value y1 cfs f"
  using assms(4,5)
proof (induction cfs rule: list_nonempty_induct)
  case (single cf)
  then show ?case
    using discounted_strict_mono [OF assms(1,2,3), of "amount cf" "time cf"]
    by (simp add: present_value_def)
next
  case (cons cf cfs)
  have "amount cf / (1 + y2 / real f) powr (real f * time cf)
          < amount cf / (1 + y1 / real f) powr (real f * time cf)"
    using cons.prems discounted_strict_mono [OF assms(1,2,3), of "amount cf" "time cf"]
    by simp
  moreover have "present_value y2 cfs f < present_value y1 cfs f"
    using cons by simp
  ultimately show ?case by (simp add: present_value_def)
qed

section \<open>Properties of the yield solver\<close>

lemma solve_iteration_frame:
  assumes "solve_iteration t cfs f s = Inr (Continue s')"
  shows "s_low s' = s_low s \<and> s_high s' = s_high s"
  using assms
  by (auto simp: solve_iteration_def Let_def split: sum.splits prod.splits if_splits)

lemma solve_trace_frame:
  "s' \<in> set (solve_trace n t cfs f s) \<Longrightarrow> s_low s' = s_low s \<and> s_high s' = s_high s"
proof (induction n arbitrary: s)
  case 0
  then show ?case by simp
next
  case (Suc n)
  show ?case
  proof (cases "s' = s")
    case True
    then show ?thesis by simp
  next
    case False
    with Suc.prems have "\<exists>s1. solve_iteration t cfs f s = Inr (Continue s1)
        \<and> s' \<in> set (solve_trace n t cfs f s1)"
      by (cases "solve_iteration t cfs f s") (auto split: outcome.splits)
    then obtain s1 where s1: "solve_iteration t cfs f s = Inr (Continue s1)"
      "s' \<in> set (solve_trace n t cfs f s1)" by blast
    from Suc.IH [OF s1(2)] solve_iteration_frame [OF s1(1)] show ?thesis by simp
  qed
qed

lemma bisection_midpoint:
  assumes "s_low s = Fin (- 0.20)" "s_high s = Fin 1.0"
    and "forward_difference cfs f (s_ytm s) = Inr (price, d)" "degenerate d"
  shows "solve_iteration t cfs f s = Inr (Continue (s\<lparr>s_ytm := Fin 0.4\<rparr>))"
  using assms
  by (simp add: solve_iteration_def clamp_def py_min_def py_max_def)

lemma clamp_in_bounds:
  assumes "s_low s = Fin (- 0.20)" "s_high s = Fin 1.0" "\<not> fl_isnan y"
  shows "in_bounds (clamp s y)"
  using assms
  by (cases y) (auto simp: clamp_def py_min_def py_max_def in_bounds_def)

lemma forward_difference_fin:
  assumes "- 1 < y" "0 < f"
  shows "\<exists>p d. forward_difference cfs f (Fin y) = Inr (Fin p, Fin d)"
proof -
  have "- 1 < y + eps" using assms by (simp add: eps_def)
  then show ?thesis
    using assms
    by (simp add: forward_difference_def calculate_price_fin fl_sub_def eps_def)
qed

lemma solve_iteration_in_bounds:
  assumes "s_low s = Fin (- 0.20)" "s_high s = Fin 1.0" "in_bounds (s_ytm s)"
    and "\<not> fl_isnan t" "0 < f"
  shows "(\<exists>r. solve_iteration t cfs f s = Inr (Return r) \<and> in_bounds r)
       \<or> (\<exists>s'. solve_iteration t cfs f s = Inr (Continue s') \<and> s_low s' = Fin (- 0.20)
              \<and> s_high s' = Fin 1.0 \<and> in_bounds (s_ytm s'))"
proof -
  obtain y where y: "s_ytm s = Fin y" "- 0.20 \<le> y" "y \<le> 1.0"
    using assms(3) by (auto simp: in_bounds_def)
  then have "- 1 < y" by simp
  then obtain p d where fd: "forward_difference cfs f (Fin y) = Inr (Fin p, Fin d)"
    using forward_difference_fin assms(5) by blast
  show ?thesis
  proof (cases "degenerate (Fin d)")
    case True
    then show ?thesis
      using bisection_midpoint [OF assms(1,2), of cfs f "Fin p" "Fin d" t] fd y assms(1,2)
      by (auto simp: in_bounds_def intro!: exI [of _ "2 / 5"])
  next
    case False
    then have dnz: "d \<noteq> 0" by (auto simp: degenerate_def)
    show ?thesis
    proof (cases "fl_lt (fl_abs (fl_sub t (Fin p))) (Fin (1 / 10 ^ 8))")
      case True
      then show ?thesis using fd y False assms(3) by (simp add: solve_iteration_def)
    next
      case small: False
      obtain q where q: "py_div (fl_sub t (Fin p)) (Fin d) = Inr q" "\<not> fl_isnan q"
        using dnz assms(4) by (cases t) (auto simp: fl_sub_def)
      then have "\<not> fl_isnan (fl_add (Fin y) q)" by (cases q) auto
      then have "in_bounds (clamp s (fl_add (Fin y) q))"
        using clamp_in_bounds assms(1,2) by blast
      then show ?thesis using fd y False small q assms(1,2)
        by (simp add: solve_iteration_def)
    qed
  qed
qed

lemma solve_loop_in_bounds:
  assumes "s_low s = Fin (- 0.20)" "s_high s = Fin 1.0" "in_bounds (s_ytm s)"
    and "\<not> fl_isnan t" "0 < f"
  shows "\<exists>r. solve_loop n t cfs f s = Inr r \<and> in_bounds r"
  using assms(1,2,3)
proof (induction n arbitrary: s)
  case 0
  then show ?case by simp
next
  case (Suc n)
  from solve_iteration_in_bounds [OF Suc.prems assms(4,5), of cfs]
  show ?case
  proof
    assume "\<exists>r. solve_iteration t cfs f s = Inr (Return r) \<and> in_bounds r"
    then show ?thesis by auto
  next
    assume "\<exists>s'. solve_iteration t cfs f s = Inr (Continue s') \<and> s_low s' = Fin (- 0.20)
              \<and> s_high s' = Fin 1.0 \<and> in_bounds (s_ytm s')"
    then obtain s' where s': "solve_iteration t cfs f s = Inr (Continue s')"
      "s_low s' = Fin (- 0.20)" "s_high s' = Fin 1.0" "in_bounds (s_ytm s')" by blast
    from Suc.IH [OF s'(2,3,4)] s'(1) show ?thesis by simp
  qed
qed

lemma present_value_one_payment:
  "- 1 < y \<Longrightarrow> present_value y one_payment (Suc 0) = 100 / (1 + y)"
  by (simp add: present_value_def one_payment_def)

lemma forward_difference_one_payment:
  "- 1 < y \<Longrightarrow> forward_difference one_payment (Suc 0) (Fin y)
      = Inr (Fin (100 / (1 + y)), Fin ((100 / (1 + y + eps) - 100 / (1 + y)) / eps))"
  by (simp add: forward_difference_def calculate_price_fin present_value_one_payment
        eps_def fl_sub_def add.assoc)

lemma solve_loop_numeral:
  "solve_loop (numeral k) t cfs f s =
     (case solve_iteration t cfs f s of
        Inl e \<Rightarrow> Inl e
      | Inr (Return r) \<Rightarrow> Inr r
      | Inr (Continue s') \<Rightarrow> solve_loop (pred_numeral k) t cfs f s')"
  by (simp add: numeral_eq_Suc)

lemma solve_trace_numeral:
  "solve_trace (numeral k) t cfs f s =
     s # (case solve_iteration t cfs f s of
            Inr (Continue s') \<Rightarrow> solve_trace (pred_numeral k) t cfs f s'
          | _ \<Rightarrow> [])"
  by (simp add: numeral_eq_Suc)








text \<open>
  An instance in which the round trip of the specification does hold with the default
  guess: the one-payment bond priced at 3% is solved in three Newton steps, and the
  fourth pass returns a yield within \<open>1e-6\<close> of \<open>0.03\<close>.
\<close>

lemma round_trip_pass_1:
  "solve_iteration (Fin (10000 / 103)) one_payment (Suc 0) (initial_state (Fin (1 / 20)))
     = Inr (Continue (initial_state (Fin (15249999 / 515000000))))"
  by (simp add: solve_iteration_def initial_state_def forward_difference_one_payment
        degenerate_def eps_def fl_sub_def clamp_def py_min_def py_max_def)

lemma round_trip_pass_2:
  "solve_iteration (Fin (10000 / 103)) one_payment (Suc 0) (initial_state (Fin (15249999 / 515000000)))
     = Inr (Continue (initial_state (Fin (16390825019800101 / 546363500000000000))))"
  by (simp add: solve_iteration_def initial_state_def forward_difference_one_payment
        degenerate_def eps_def fl_sub_def clamp_def py_min_def py_max_def)

lemma round_trip_pass_3:
  "solve_iteration (Fin (10000 / 103)) one_payment (Suc 0) (initial_state (Fin (16390825019800101 / 546363500000000000)))
     = Inr (Continue (initial_state (Fin (9224053990684497993818867729039799 / 307468466356217500000000000000000000))))"
  by (simp add: solve_iteration_def initial_state_def forward_difference_one_payment
        degenerate_def eps_def fl_sub_def clamp_def py_min_def py_max_def)

lemma round_trip_pass_4:
  "solve_iteration (Fin (10000 / 103)) one_payment (Suc 0) (initial_state (Fin (9224053990684497993818867729039799 / 307468466356217500000000000000000000)))
     = Inr (Return (Fin (9224053990684497993818867729039799 / 307468466356217500000000000000000000)))"
  by (simp add: solve_iteration_def initial_state_def forward_difference_one_payment
        degenerate_def eps_def fl_sub_def)

lemma solve_ytm_round_trip_example:
  "calculate_price (Fin 0.03) one_payment 1 = Inr (Fin (10000 / 103))
   \<and> solve_ytm (Fin (10000 / 103)) one_payment 1 (Fin 0.05) = Inr (Fin (9224053990684497993818867729039799 / 307468466356217500000000000000000000))
   \<and> \<bar>(9224053990684497993818867729039799 / 307468466356217500000000000000000000) - 0.03 :: real\<bar> \<le> 1 / 10 ^ 6"
proof -
  have "solve_loop 100 (Fin (10000 / 103)) one_payment (Suc 0) (initial_state (Fin (1 / 20)))
          = Inr (Fin (9224053990684497993818867729039799 / 307468466356217500000000000000000000))"
    by (simp add: solve_loop_numeral round_trip_pass_1 round_trip_pass_2 round_trip_pass_3 round_trip_pass_4)
  then show ?thesis
    by (simp add: solve_ytm_def calculate_price_fin present_value_one_payment)
qed

text \<open>
  Claim C6 for guesses inside the bound interval: for every target price that is a
  number, every schedule, every positive frequency and every initial guess in
  \<open>[-0.20, 1.0]\<close>, \<open>solve_ytm\<close> returns a finite value in \<open>[-0.20, 1.0]\<close>, on both
  return paths.
\<close>

theorem solve_ytm_within_bounds:
  assumes "- 0.20 \<le> g" "g \<le> 1.0" "\<not> fl_isnan target" "0 < f"
  shows "\<exists>r. solve_ytm target cfs f (Fin g) = Inr (Fin r) \<and> - 0.20 \<le> r \<and> r \<le> 1.0"
proof -
  have "in_bounds (s_ytm (initial_state (Fin g)))"
    using assms(1,2) by (simp add: initial_state_def in_bounds_def)
  then have "\<exists>r. solve_loop 100 target cfs f (initial_state (Fin g)) = Inr r \<and> in_bounds r"
    using assms(3,4) by (intro solve_loop_in_bounds) (simp_all add: initial_state_def)
  then show ?thesis by (auto simp: solve_ytm_def in_bounds_def)
qed

theorem solve_ytm_within_bounds_witness:
  "- 0.20 \<le> (0.05 :: real) \<and> (0.05 :: real) \<le> 1.0 \<and> \<not> fl_isnan (Fin (100 / 3)) \<and> 0 < (1 :: nat)
   \<and> (\<exists>r. solve_ytm (Fin (100 / 3)) one_payment 1 (Fin 0.05) = Inr (Fin r)
          \<and> - 0.20 \<le> r \<and> r \<le> 1.0)"
  using solve_ytm_within_bounds [of "0.05" "Fin (100 / 3)" 1 one_payment] by simp

text \<open>
  Claim C6 at a guess outside the interval: the first pass returns the guess before any
  clamping when the guess already prices to the target. With the one-payment bond,
  target \<open>100 / 3\<close> and guess \<open>2.0\<close> the solver returns \<open>2.0\<close>.
\<close>

theorem solve_ytm_returns_unclamped_guess:
  "solve_ytm (Fin (100 / 3)) one_payment 1 (Fin 2) = Inr (Fin 2)"
proof -
  have "solve_iteration (Fin (100 / 3)) one_payment (Suc 0) (initial_state (Fin 2))
          = Inr (Return (Fin 2))"
    by (simp add: solve_iteration_def initial_state_def forward_difference_one_payment
          degenerate_def eps_def fl_sub_def)
  then have "solve_loop 100 (Fin (100 / 3)) one_payment (Suc 0) (initial_state (Fin 2))
          = Inr (Fin 2)"
    by (simp add: solve_loop_numeral)
  then show ?thesis by (simp add: solve_ytm_def)
qed

text \<open>
  Claim C10: in every state in which a run of \<open>solve_ytm\<close> enters or leaves its loop,
  \<open>low\<close> is \<open>-0.20\<close> and \<open>high\<close> is \<open>1.0\<close>; so whenever the derivative test sends
  a pass to the bisection fallback, that pass ends with \<open>ytm = 0.4\<close>, whatever the
  target price and the current iterate.
\<close>

theorem solve_ytm_bracket_constant:
  assumes "s \<in> set (solve_trace 100 target cfs f (initial_state guess))"
  shows "s_low s = Fin (- 0.20) \<and> s_high s = Fin 1.0
         \<and> (\<forall>price d. forward_difference cfs f (s_ytm s) = Inr (price, d) \<and> degenerate d
               \<longrightarrow> solve_iteration target cfs f s = Inr (Continue (s\<lparr>s_ytm := Fin 0.4\<rparr>)))"
proof -
  have b: "s_low s = Fin (- 0.20)" "s_high s = Fin 1.0"
    using solve_trace_frame [OF assms] by (simp_all add: initial_state_def)
  then show ?thesis using bisection_midpoint [OF b] by blast
qed

theorem solve_ytm_bracket_constant_witness:
  "initial_state (Fin 0.05) \<in> set (solve_trace 100 (Fin 0) [] 1 (initial_state (Fin 0.05)))
   \<and> forward_difference [] 1 (Fin 0.05) = Inr (Fin 0, Fin 0) \<and> degenerate (Fin 0)
   \<and> s_low (initial_state (Fin 0.05)) = Fin (- 0.20)
   \<and> s_high (initial_state (Fin 0.05)) = Fin 1.0
   \<and> solve_iteration (Fin 0) [] 1 (initial_state (Fin 0.05))
       = Inr (Continue ((initial_state (Fin 0.05))\<lparr>s_ytm := Fin 0.4\<rparr>))"
proof -
  have m': "initial_state (Fin 0.05) \<in> set (solve_trace 100 (Fin 0) [] 1 (initial_state (Fin 0.05)))"
    by (simp add: solve_trace_numeral)
  have fd: "forward_difference [] 1 (Fin 0.05) = Inr (Fin 0, Fin 0)"
    by (simp add: forward_difference_def calculate_price_def fl_sub_def eps_def)
  have dg: "degenerate (Fin 0)" by (simp add: degenerate_def)
  have y: "s_ytm (initial_state (Fin 0.05)) = Fin 0.05" by (simp add: initial_state_def)
  from solve_ytm_bracket_constant [OF m'] fd dg y m' show ?thesis by simp
qed

text \<open>
  Claim C3, as stated, fails below the yield floor: at the yields \<open>-3 < -2\<close> the
  one-payment schedule (positive amount) has the sentinel price \<open>inf\<close> twice, and
  \<open>inf > inf\<close> is false.
\<close>

theorem calculate_price_flat_below_floor:
  "calculate_price (Fin (- 3)) one_payment 1 = Inr PInf
   \<and> calculate_price (Fin (- 2)) one_payment 1 = Inr PInf
   \<and> \<not> fl_lt PInf PInf"
  by (simp add: calculate_price_def)

text \<open>
  Claim C3, amended: for a positive frequency, a non-empty schedule whose payments all
  have a positive amount and a positive time, and yields \<open>y1 < y2\<close> with \<open>y2\<close> above
  \<open>-100%\<close>, \<open>calculate_price\<close> at \<open>y1\<close> is strictly greater than at \<open>y2\<close>.
\<close>

theorem calculate_price_strictly_decreasing:
  assumes "y1 < y2" "- 1 < y2" "0 < f" "cfs \<noteq> []"
    and "\<forall>cf \<in> set cfs. 0 < amount cf \<and> 0 < time cf"
  shows "\<exists>p1 p2. calculate_price (Fin y1) cfs f = Inr p1
           \<and> calculate_price (Fin y2) cfs f = Inr p2 \<and> fl_lt p2 p1"
proof (cases "- 1 < y1")
  case True
  then have "present_value y2 cfs f < present_value y1 cfs f"
    using assms by (intro present_value_strict_mono)
  then show ?thesis using True assms(2,3) by (simp add: calculate_price_fin)
next
  case False
  then have "calculate_price (Fin y1) cfs f = Inr PInf"
    by (simp add: calculate_price_sentinel)
  then show ?thesis using assms(2,3) by (simp add: calculate_price_fin)
qed

theorem calculate_price_strictly_decreasing_witness:
  "(0 :: real) < 1 \<and> - 1 < (1 :: real) \<and> 0 < (1 :: nat) \<and> one_payment \<noteq> []
   \<and> list_all (\<lambda>cf. 0 < amount cf \<and> 0 < time cf) one_payment
   \<and> (\<exists>p1 p2. calculate_price (Fin 0) one_payment 1 = Inr p1
           \<and> calculate_price (Fin 1) one_payment 1 = Inr p2 \<and> fl_lt p2 p1)"
  using calculate_price_strictly_decreasing [of 0 1 1 one_payment]
  by (simp add: one_payment_def)

section \<open>Properties of the scenario generator\<close>

lemma scenario_curve_no_volatility:
  "scenario_curve draws base 0 = (\<lambda>i. base\<lparr>beta0 := max 0.001 (beta0 base)\<rparr>)"
  by (rule ext) (simp add: scenario_curve_def shock_def)

text \<open>
  Claim C5, as stated, fails for a base curve whose level is below the floor: with
  \<open>beta0 = 0\<close> and volatility 0 both generated curves have \<open>beta0 = 0.001\<close>, not the
  base curve's \<open>0\<close>.
\<close>

theorem generate_scenarios_floors_level:
  "generate_scenarios unit_draws zero_level_curve 2 0
     = Inr [\<lparr>beta0 = 0.001, beta1 = 0.02, beta2 = 0.01, tau = 2\<rparr>,
            \<lparr>beta0 = 0.001, beta1 = 0.02, beta2 = 0.01, tau = 2\<rparr>]
   \<and> beta0 zero_level_curve = 0"
  by (simp add: generate_scenarios_def scenario_curve_no_volatility zero_level_curve_def
        upt_rec numeral_eq_Suc)

text \<open>
  Claim C5, amended: for every base curve, every table of variates and every \<open>n\<close>,
  \<open>generate_scenarios(n, volatility=0)\<close> returns exactly \<open>n\<close> curves, each with
  \<open>beta1\<close>, \<open>beta2\<close> and \<open>tau\<close> of the base curve and with \<open>beta0\<close> the larger of
  \<open>0.001\<close> and the base curve's \<open>beta0\<close> (so each equals the base curve exactly when
  the base level is at least \<open>0.001\<close>).
\<close>

theorem generate_scenarios_no_volatility:
  "generate_scenarios draws base n 0
     = Inr (replicate n (base\<lparr>beta0 := max 0.001 (beta0 base)\<rparr>))"
  by (simp add: generate_scenarios_def scenario_curve_no_volatility map_replicate_const)

text \<open>
  Claim C7: a shock type other than the three known ones gives back the base curve
  itself, and \<open>steepener\<close> adds the magnitude to \<open>beta0\<close>, subtracts it from \<open>beta1\<close> and
  keeps \<open>beta2\<close> and \<open>tau\<close>. The function is total: no input makes it fail.
\<close>

theorem apply_manual_shock_unknown_and_steepener:
  "(type \<notin> {''parallel'', ''steepener'', ''flattener''}
      \<longrightarrow> apply_manual_shock base type magnitude = base)
   \<and> apply_manual_shock base ''steepener'' magnitude
       = \<lparr>beta0 = beta0 base + magnitude, beta1 = beta1 base - magnitude,
          beta2 = beta2 base, tau = tau base\<rparr>"
  by (simp add: apply_manual_shock_def)

theorem apply_manual_shock_unknown_and_steepener_witness:
  "''twist'' \<notin> {''parallel'', ''steepener'', ''flattener''}
   \<and> apply_manual_shock sample_curve ''twist'' 0.01 = sample_curve
   \<and> apply_manual_shock sample_curve ''steepener'' 0.01
       = \<lparr>beta0 = 0.05, beta1 = - 0.03, beta2 = 0.01, tau = 2\<rparr>"
  using apply_manual_shock_unknown_and_steepener [of "''twist''" sample_curve "0.01"]
  by (simp add: sample_curve_def)

section \<open>Properties of the risk engine\<close>





section \<open>Properties of the constraint check\<close>



lemma list_ex_nonempty: "list_ex P ws \<Longrightarrow> ws \<noteq> []"
  by auto







section \<open>Properties of the CVaR objective\<close>

lemma generate_cash_flows_total:
  "0 < f \<Longrightarrow> \<exists>cfs. generate_cash_flows p c f m = Inr cfs"
  by (simp add: generate_cash_flows_def Let_def)

lemma bond_cfs_regular:
  assumes "0 < b_frequency b"
  shows "\<exists>cfs ch'. bond_cfs ch b = Inr (cfs, ch') \<and> ch' (b_id b) = Some cfs \<and> ch \<subseteq>\<^sub>m ch'"
proof (cases "ch (b_id b)")
  case None
  obtain cfs where "generate_cash_flows (b_principal b) (b_coupon b) (b_frequency b) (b_maturity b)
      = Inr cfs"
    using generate_cash_flows_total [OF assms] by blast
  then show ?thesis using None
    by (auto simp: bond_cfs_def get_cached_cfs_def map_le_def)
next
  case (Some cfs)
  then show ?thesis by (simp add: bond_cfs_def get_cached_cfs_def)
qed

lemma fill_cache_extends: "ch \<subseteq>\<^sub>m fill_cache ch bs"
proof (induction bs arbitrary: ch)
  case Nil
  then show ?case by simp
next
  case (Cons b bs)
  show ?case
  proof (cases "bond_cfs ch b")
    case (Inl e)
    then show ?thesis by simp
  next
    case (Inr r)
    obtain cfs ch' where r: "r = (cfs, ch')" by (cases r)
    have "ch \<subseteq>\<^sub>m ch'" using Inr r
      by (auto simp: bond_cfs_def get_cached_cfs_def map_le_def
               split: option.splits sum.splits)
    moreover have "ch' \<subseteq>\<^sub>m fill_cache ch' bs" by (rule Cons.IH)
    ultimately show ?thesis using Inr r by (auto intro: map_le_trans)
  qed
qed

lemma fill_cache_known:
  "\<forall>b \<in> set bs. b_id b \<in> dom ch \<Longrightarrow> fill_cache ch bs = ch"
  by (induction bs arbitrary: ch) (auto simp: bond_cfs_def get_cached_cfs_def)

lemma fill_cache_dom:
  "list_all (\<lambda>b. 0 < b_frequency b) bs \<Longrightarrow> \<forall>b \<in> set bs. b_id b \<in> dom (fill_cache ch bs)"
proof (induction bs arbitrary: ch)
  case Nil
  then show ?case by simp
next
  case (Cons b bs)
  then have f: "0 < b_frequency b" and rest: "list_all (\<lambda>b. 0 < b_frequency b) bs" by simp_all
  obtain cfs ch' where c: "bond_cfs ch b = Inr (cfs, ch')" "ch' (b_id b) = Some cfs"
    using bond_cfs_regular [OF f] by blast
  have "ch' \<subseteq>\<^sub>m fill_cache ch' bs" by (rule fill_cache_extends)
  then have "b_id b \<in> dom (fill_cache ch' bs)" using c(2)
    by (metis domI map_le_def)
  then show ?case using c(1) Cons.IH [OF rest, of ch'] by simp
qed

lemma fill_cache_idem:
  assumes "list_all (\<lambda>b. 0 < b_frequency b) bs"
  shows "fill_cache (fill_cache ch bs) bs = fill_cache ch bs"
  using fill_cache_dom [OF assms] by (intro fill_cache_known) 

lemma get_yield_the_yield: "tau curve \<noteq> 0 \<Longrightarrow> get_yield curve m = Inr (the_yield curve m)"
  by (simp add: the_yield_def get_yield_def Let_def)

lemma unit_loss_ratio_fin:
  "unit_loss_ratio (Fin p) (Fin sp) = Inr (Fin (unit_loss_floored p sp))"
  by (simp add: unit_loss_ratio_def unit_loss_floored_def fl_sub_def Let_def)

lemma portfolio_loss_regular:
  assumes "list_all (\<lambda>b. 0 < b_frequency b \<and> b_market_price b = Fin (fin_price b)) bs"
    and "tau curve \<noteq> 0"
    and "list_all (\<lambda>b. - 1 < the_yield curve (b_maturity b)) bs"
    and "length ws = length bs"
    and "fill_cache ch bs \<subseteq>\<^sub>m F"
  shows "portfolio_loss curve ws bs (Fin a) ch
           = Inr (Fin (a + weighted_loss unit_loss_floored F ws bs curve), fill_cache ch bs)"
  using assms(1,3,4,5)
proof (induction bs arbitrary: ws a ch)
  case Nil
  then show ?case by (simp add: weighted_loss_def)
next
  case (Cons b bs)
  obtain w ws' where ws: "ws = w # ws'" "length ws' = length bs"
    using Cons.prems(3) by (cases ws) auto
  have f: "0 < b_frequency b" and mp: "b_market_price b = Fin (fin_price b)"
    and y: "- 1 < the_yield curve (b_maturity b)"
    using Cons.prems(1,2) by simp_all
  obtain cfs ch' where c: "bond_cfs ch b = Inr (cfs, ch')" "ch' (b_id b) = Some cfs"
    using bond_cfs_regular [OF f] by blast
  have fc: "fill_cache ch (b # bs) = fill_cache ch' bs" using c(1) by simp
  have "ch' \<subseteq>\<^sub>m fill_cache ch' bs" by (rule fill_cache_extends)
  then have "ch' \<subseteq>\<^sub>m F" using Cons.prems(4) fc by (auto intro: map_le_trans)
  then have F: "F (b_id b) = Some cfs" using c(2) by (metis domI map_le_def)
  have sp: "calculate_price (Fin (the_yield curve (b_maturity b))) cfs (b_frequency b)
              = Inr (Fin (scenario_price F curve b))"
    using y f F by (simp add: calculate_price_fin scenario_price_def)
  have IH: "portfolio_loss curve ws' bs
              (Fin (a + w * unit_loss_floored (fin_price b) (scenario_price F curve b))) ch'
            = Inr (Fin (a + w * unit_loss_floored (fin_price b) (scenario_price F curve b)
                        + weighted_loss unit_loss_floored F ws' bs curve), fill_cache ch' bs)"
    using Cons.prems(1,2,4) ws(2) fc by (intro Cons.IH) simp_all
  show ?case
    using c(1) get_yield_the_yield [OF assms(2), of "b_maturity b"] sp mp ws(1) IH fc
    by (simp add: unit_loss_ratio_fin weighted_loss_def add.assoc)
qed

lemma scenario_losses_regular:
  assumes "list_all (\<lambda>b. 0 < b_frequency b \<and> b_market_price b = Fin (fin_price b)) bs"
    and "list_all (\<lambda>curve. tau curve \<noteq> 0
                    \<and> list_all (\<lambda>b. - 1 < the_yield curve (b_maturity b)) bs) curves"
    and "length ws = length bs"
    and "fill_cache ch bs = F \<or> ch = F" "F = fill_cache F bs"
  shows "\<exists>ch'. scenario_losses curves ws bs ch
           = Inr (map (\<lambda>curve. Fin (weighted_loss unit_loss_floored F ws bs curve)) curves, ch')"
  using assms(2,4)
proof (induction curves arbitrary: ch)
  case Nil
  then show ?case by simp
next
  case (Cons curve curves)
  have t: "tau curve \<noteq> 0" and y: "list_all (\<lambda>b. - 1 < the_yield curve (b_maturity b)) bs"
    and rest: "list_all (\<lambda>curve. tau curve \<noteq> 0
                    \<and> list_all (\<lambda>b. - 1 < the_yield curve (b_maturity b)) bs) curves"
    using Cons.prems(1) by simp_all
  have fc: "fill_cache ch bs = F" using Cons.prems(2) assms(5) by auto
  then have le: "fill_cache ch bs \<subseteq>\<^sub>m F" by simp
  have pl: "portfolio_loss curve ws bs (Fin 0) ch
           = Inr (Fin (weighted_loss unit_loss_floored F ws bs curve), F)"
    using portfolio_loss_regular [OF assms(1) t y assms(3) le, of 0] fc by simp
  obtain ch' where "scenario_losses curves ws bs F
           = Inr (map (\<lambda>curve. Fin (weighted_loss unit_loss_floored F ws bs curve)) curves, ch')"
    using Cons.IH [OF rest, of F] by auto
  then show ?case using pl by simp
qed

lemma foldl_fl_add_fin: "foldl fl_add (Fin a) (map Fin xs) = Fin (a + sum_list xs)"
  by (induction xs arbitrary: a) (simp_all add: add.assoc)

lemma np_maximum_fin: "np_maximum (fl_sub (Fin l) (Fin a)) (Fin 0) = Fin (max 0 (l - a))"
  by (simp add: np_maximum_def fl_sub_def max_def)

text \<open>
  Claim C1, amended: for a weight vector with one weight per bond, at least one
  scenario, a confidence level other than 1 and inputs on which the computation stays
  finite, \<open>_cvar_objective(w ++ [alpha])\<close> equals
  \<open>alpha + (1 / (S * (1 - c))) * sum of max(0, loss_s - alpha)\<close>, where \<open>loss_s\<close> is
  the weighted sum over the bonds of \<open>(p - scenario_price) / p\<close> and \<open>p\<close> is the
  bond's market price, replaced by \<open>0.01\<close> when it is at or below zero.
\<close>

theorem cvar_objective_closed_form:
  assumes "length w = length bonds" "scenarios \<noteq> []" "c \<noteq> 1"
    and "regular_inputs bonds scenarios"
  shows "\<exists>cache'. cvar_objective (w @ [alpha]) bonds scenarios c cache
           = Inr (Fin (rockafellar_uryasev alpha c
                         (map (weighted_loss unit_loss_floored (fill_cache cache bonds) w bonds)
                            scenarios)),
                  cache')"
proof -
  let ?F = "fill_cache cache bonds"
  have reg: "list_all (\<lambda>b. 0 < b_frequency b \<and> b_market_price b = Fin (fin_price b)) bonds"
    "list_all (\<lambda>curve. tau curve \<noteq> 0
                 \<and> list_all (\<lambda>b. - 1 < the_yield curve (b_maturity b)) bonds) scenarios"
    using assms(4) by (simp_all add: regular_inputs_def)
  have "list_all (\<lambda>b. 0 < b_frequency b) bonds"
    using reg(1) by (simp add: list_all_iff)
  then have idem: "?F = fill_cache ?F bonds" by (simp add: fill_cache_idem)
  obtain ch' where sl: "scenario_losses scenarios w bonds cache
      = Inr (map (\<lambda>curve. Fin (weighted_loss unit_loss_floored ?F w bonds curve)) scenarios, ch')"
    using scenario_losses_regular [OF reg assms(1) _ idem, of cache] by auto
  have den: "real (length scenarios) * (1 - c) \<noteq> 0"
    using assms(2,3) by simp
  have tail: "map (\<lambda>l. np_maximum (fl_sub l (Fin alpha)) (Fin 0))
                (map (\<lambda>curve. Fin (weighted_loss unit_loss_floored ?F w bonds curve)) scenarios)
              = map Fin (map (\<lambda>curve. max 0 (weighted_loss unit_loss_floored ?F w bonds curve - alpha))
                  scenarios)"
    by (simp add: np_maximum_fin)
  have "cvar_objective (w @ [alpha]) bonds scenarios c cache
          = Inr (Fin (alpha + 1 / (real (length scenarios) * (1 - c))
                   * (\<Sum>curve\<leftarrow>scenarios.
                        max 0 (weighted_loss unit_loss_floored ?F w bonds curve - alpha))), ch')"
    using assms(1) sl den
    by (simp add: cvar_objective_def Let_def tail foldl_fl_add_fin nth_append del: map_map)
  then show ?thesis by (simp add: rockafellar_uryasev_def comp_def)
qed


lemma py_round_zero: "py_round 0 = 0"
  by (simp add: py_round_def)

lemma py_round_one: "py_round 1 = 1"
  by (simp add: py_round_def)

lemma matured_bond_cfs:
  "generate_cash_flows 1000 (1 / 20) 2 0 = Inr []"
  by (simp add: generate_cash_flows_def py_round_zero)

lemma live_bond_cfs:
  "generate_cash_flows 100 0 (Suc 0) 1 = Inr [\<lparr>time = 1, amount = 100\<rparr>]"
  by (simp add: generate_cash_flows_def py_round_one upt_rec)

lemma the_yield_flat: "the_yield flat_curve m = 0.25"
  by (simp add: the_yield_def get_yield_def flat_curve_def Let_def)

lemma sample_cache:
  "fill_cache Map.empty [matured_bond, live_bond]
     = [''MATURED'' \<mapsto> [], ''LIVE'' \<mapsto> [\<lparr>time = 1, amount = 100\<rparr>]]"
  by (simp add: bond_cfs_def get_cached_cfs_def matured_bond_def live_bond_def
        matured_bond_cfs live_bond_cfs)

theorem cvar_objective_closed_form_witness:
  "length [0.5, 0.5 :: real] = length [matured_bond, live_bond]
   \<and> [flat_curve] \<noteq> [] \<and> (0.5 :: real) \<noteq> 1
   \<and> regular_inputs [matured_bond, live_bond] [flat_curve]
   \<and> (\<exists>cache'. cvar_objective [0.5, 0.5, 0.1] [matured_bond, live_bond] [flat_curve] 0.5 Map.empty
          = Inr (Fin 1.1, cache'))"
proof -
  have r: "regular_inputs [matured_bond, live_bond] [flat_curve]"
    by (simp add: regular_inputs_def the_yield_flat)
       (simp add: matured_bond_def live_bond_def fin_price_def flat_curve_def)
  have h1: "length [0.5, 0.5 :: real] = length [matured_bond, live_bond]" by simp
  have h2: "[flat_curve] \<noteq> []" by simp
  have h3: "(0.5 :: real) \<noteq> 1" by simp
  have e: "rockafellar_uryasev 0.1 0.5
             (map (weighted_loss unit_loss_floored (fill_cache Map.empty [matured_bond, live_bond])
                     [0.5, 0.5] [matured_bond, live_bond]) [flat_curve]) = 1.1"
    by (simp only: sample_cache)
       (simp add: rockafellar_uryasev_def weighted_loss_def unit_loss_floored_def
          scenario_price_def the_yield_flat present_value_def fin_price_def
          matured_bond_def live_bond_def)
  have "\<exists>cache'. cvar_objective ([0.5, 0.5] @ [0.1]) [matured_bond, live_bond] [flat_curve]
                    0.5 Map.empty = Inr (Fin 1.1, cache')"
    using cvar_objective_closed_form [OF h1 h2 h3 r, of "0.1" Map.empty] unfolding e .
  then show ?thesis using r by simp
qed

text \<open>
  Claim C1, as stated, fails for a market price at or below zero: for one matured bond
  with market price \<open>0\<close> (no payments left, scenario price \<open>0\<close>), weight \<open>1\<close>,
  \<open>alpha = 0\<close>, one scenario and confidence \<open>0.5\<close> the objective is \<open>2\<close>, while the
  formula with \<open>(initial_price - scenario_price) / max(initial_price, 0.01)\<close> gives \<open>0\<close>.
\<close>

theorem cvar_objective_differs_from_max_floor:
  "cvar_objective [1, 0] [matured_bond] [sample_curve] 0.5 Map.empty
     = Inr (Fin 2, [''MATURED'' \<mapsto> []])
   \<and> rockafellar_uryasev 0 0.5
        (map (weighted_loss unit_loss_spec (fill_cache Map.empty [matured_bond]) [1] [matured_bond])
           [sample_curve]) = 0"
proof -
  have c: "bond_cfs Map.empty matured_bond = Inr ([], [''MATURED'' \<mapsto> []])"
    by (simp add: bond_cfs_def get_cached_cfs_def matured_bond_def matured_bond_cfs)
  have y: "get_yield sample_curve (b_maturity matured_bond) = Inr 0.02"
    by (simp add: get_yield_def matured_bond_def sample_curve_def)
  have p: "calculate_price (Fin 0.02) [] (b_frequency matured_bond) = Inr (Fin 0)"
    by (simp add: calculate_price_def)
  have u: "unit_loss_ratio (b_market_price matured_bond) (Fin 0) = Inr (Fin 1)"
    by (simp add: unit_loss_ratio_def matured_bond_def fl_sub_def)
  have l: "portfolio_loss sample_curve [1] [matured_bond] (Fin 0) Map.empty
             = Inr (Fin 1, [''MATURED'' \<mapsto> []])"
    using c y p u by simp
  have code: "cvar_objective [1, 0] [matured_bond] [sample_curve] 0.5 Map.empty
     = Inr (Fin 2, [''MATURED'' \<mapsto> []])"
    using l by (simp add: cvar_objective_def Let_def np_maximum_def fl_sub_def)
  have spec: "rockafellar_uryasev 0 0.5
        (map (weighted_loss unit_loss_spec (fill_cache Map.empty [matured_bond]) [1] [matured_bond])
           [sample_curve]) = 0"
    using c
    by (simp add: rockafellar_uryasev_def weighted_loss_def unit_loss_spec_def
          scenario_price_def present_value_def fin_price_def matured_bond_def)
  from code spec show ?thesis by simp
qed

section \<open>Properties of the simulator\<close>



lemma py_div_fin_total: "b \<noteq> 0 \<Longrightarrow> \<exists>q. py_div a (Fin b) = Inr q"
  by simp































end
